theory Spec2Isabelle
  imports Main "HOL-Library.Word" "HOL-Library.Sublist"
begin

unbundle bit_operations_syntax

section \<open>Values of the Go program\<close>

text \<open>
  The program is \<^verbatim>\<open>src/main.go\<close>. A Go \<^verbatim>\<open>string\<close> is a sequence of bytes and is modelled
  as \<^typ>\<open>string\<close>; a \<^verbatim>\<open>[]byte\<close> is a list of 8-bit words. The conversions
  \<^verbatim>\<open>[]byte(s)\<close> and \<^verbatim>\<open>string(b)\<close> of the source are written out.
\<close>

type_synonym byte = "8 word"

definition bytes_of_string :: "string \<Rightarrow> byte list" where
  "bytes_of_string s = map of_char s"

definition string_of_bytes :: "byte list \<Rightarrow> string" where
  "string_of_bytes b = map (\<lambda>w. char_of (unat w)) b"

text \<open>
  An \<^verbatim>\<open>error\<close> value made by a library is known to the program only through its
  message (\<^verbatim>\<open>%v\<close>); it is modelled as that text.
\<close>

type_synonym go_error = string

section \<open>The types of the program (lines 20 to 53)\<close>

text \<open>
  The structs of the source, with the names of their fields. The struct
  \<^verbatim>\<open>LastConfig\<close> is declared in the source and never used; it is left out.
\<close>

record RequestBody =
  PublicKey :: string
  OSVersion :: string
  AppVersion :: string
  UUID :: string

record ResponseBody =
  Config :: string

record AWG =
  LastConfig :: string

record Container =
  AWG :: AWG

record Config =
  Containers :: "Container list"

record DecodedData =
  APIEndpoint :: string
  APIKey :: string

section \<open>Library functions the program calls\<close>

subsection \<open>\<^verbatim>\<open>strings.Replace(s, old, new, -1)\<close>\<close>

text \<open>
  With a negative count every non-overlapping occurrence of \<open>old\<close> is replaced,
  scanning from the left. Both call sites pass a non-empty literal for \<open>old\<close>; the
  equations cover exactly that case.
\<close>

fun strings_Replace :: "string \<Rightarrow> string \<Rightarrow> string \<Rightarrow> string" where
  "strings_Replace [] (c # cs) new = []"
| "strings_Replace (x # xs) (c # cs) new =
     (if prefix (c # cs) (x # xs)
      then new @ strings_Replace (drop (length cs) xs) (c # cs) new
      else x # strings_Replace xs (c # cs) new)"

subsection \<open>\<^verbatim>\<open>encoding/base64\<close>\<close>

definition encodeStd :: string where
  "encodeStd = ''ABCDEFGHIJKLMNOPQRSTUVWXYZabcdefghijklmnopqrstuvwxyz0123456789+/''"

definition encodeURL :: string where
  "encodeURL = ''ABCDEFGHIJKLMNOPQRSTUVWXYZabcdefghijklmnopqrstuvwxyz0123456789-_''"

text \<open>
  \<^verbatim>\<open>(*Encoding).EncodeToString\<close> with the padding character \<^verbatim>\<open>=\<close>: three bytes make one
  24-bit value \<open>val\<close>, cut into four 6-bit indices into the alphabet.
\<close>

fun EncodeToString :: "string \<Rightarrow> byte list \<Rightarrow> string" where
  "EncodeToString enc (b0 # b1 # b2 # src) =
     (let val = unat b0 * 65536 + unat b1 * 256 + unat b2
      in enc ! (val div 262144 mod 64) # enc ! (val div 4096 mod 64) #
         enc ! (val div 64 mod 64) # enc ! (val mod 64) # EncodeToString enc src)"
| "EncodeToString enc [b0, b1] =
     (let val = unat b0 * 65536 + unat b1 * 256
      in [enc ! (val div 262144 mod 64), enc ! (val div 4096 mod 64),
          enc ! (val div 64 mod 64), CHR ''=''])"
| "EncodeToString enc [b0] =
     (let val = unat b0 * 65536
      in [enc ! (val div 262144 mod 64), enc ! (val div 4096 mod 64), CHR ''='', CHR ''=''])"
| "EncodeToString enc [] = []"

text \<open>The decode table of an alphabet: the index of a character, if it has one.\<close>

fun decodeMap :: "string \<Rightarrow> char \<Rightarrow> nat option" where
  "decodeMap [] c = None"
| "decodeMap (a # as) c = (if a = c then Some 0 else map_option Suc (decodeMap as c))"

text \<open>
  \<^verbatim>\<open>(*Encoding).DecodeString\<close> of a padded, non-strict encoding. The decoder skips
  \<^verbatim>\<open>\r\<close> and \<^verbatim>\<open>\n\<close> wherever they stand, then reads quanta of four characters; padding
  is accepted only as the last one or two characters of the last quantum, and an
  input that ends inside a quantum is corrupt. \<open>None\<close> is \<^verbatim>\<open>CorruptInputError\<close> (its
  byte offset is not modelled).
\<close>

fun decodeQuanta :: "string \<Rightarrow> string \<Rightarrow> byte list option" where
  "decodeQuanta enc (c0 # c1 # c2 # c3 # src) =
     (case (decodeMap enc c0, decodeMap enc c1) of
        (Some v0, Some v1) \<Rightarrow>
          (case decodeMap enc c2 of
             Some v2 \<Rightarrow>
               (case decodeMap enc c3 of
                  Some v3 \<Rightarrow>
                    (let val = v0 * 262144 + v1 * 4096 + v2 * 64 + v3
                     in map_option
                          (\<lambda>dst. of_nat (val div 65536) # of_nat (val div 256) # of_nat val # dst)
                          (decodeQuanta enc src))
                | None \<Rightarrow>
                    (let val = v0 * 262144 + v1 * 4096 + v2 * 64
                     in if c3 = CHR ''='' \<and> src = []
                        then Some [of_nat (val div 65536), of_nat (val div 256)] else None))
           | None \<Rightarrow>
               (let val = v0 * 262144 + v1 * 4096
                in if c2 = CHR ''='' \<and> c3 = CHR ''='' \<and> src = []
                   then Some [of_nat (val div 65536)] else None))
      | _ \<Rightarrow> None)"
| "decodeQuanta enc [] = Some []"
| "decodeQuanta enc _ = None"

definition DecodeString :: "string \<Rightarrow> string \<Rightarrow> byte list option" where
  "DecodeString enc s = decodeQuanta enc (filter (\<lambda>c. c \<noteq> CHR 0x0A \<and> c \<noteq> CHR 0x0D) s)"

subsection \<open>\<^verbatim>\<open>compress/zlib\<close>\<close>

text \<open>
  \<^verbatim>\<open>zlib.NewReader\<close> reads the two header bytes at once (RFC 1950): compression method
  8, window at most 7, header a multiple of 31; a preset dictionary is announced by bit
  5 of the second byte and then four more bytes must equal the Adler-32 checksum of the
  dictionary, which for the absent dictionary is 1. The value returned here is the rest
  of the stream, which the reader hands to the inflater.
\<close>

datatype zlib_error = ErrUnexpectedEOF | ErrHeader | ErrDictionary

definition zlib_NewReader :: "byte list \<Rightarrow> zlib_error + byte list" where
  "zlib_NewReader r =
     (case r of
        cmf # flg # r1 \<Rightarrow>
          if cmf AND 0x0f \<noteq> 8 \<or> drop_bit 4 cmf > 7 \<or> (unat cmf * 256 + unat flg) mod 31 \<noteq> 0
          then Inl ErrHeader
          else if flg AND 0x20 \<noteq> 0
          then (case r1 of
                  d0 # d1 # d2 # d3 # r2 \<Rightarrow>
                    if unat d0 * 16777216 + unat d1 * 65536 + unat d2 * 256 + unat d3 = 1
                    then Inr r2 else Inl ErrDictionary
                | _ \<Rightarrow> Inl ErrUnexpectedEOF)
          else Inr r1
      | _ \<Rightarrow> Inl ErrUnexpectedEOF)"

subsection \<open>Libraries taken as given\<close>

text \<open>
  The inflater, the JSON codec, the Curve25519 scalar multiplication, the random source,
  the UUID generator and the HTTP client are not part of the program. They are
  parameters of the model, collected in one record; every theorem below holds for any
  behaviour of them, unless it names the behaviour it needs.
\<close>

text \<open>
  The nested document is unmarshalled into a \<^verbatim>\<open>map[string]interface{}\<close>. A value
  held in an \<^verbatim>\<open>interface{}\<close> after unmarshalling is one of the following; a
  \<^verbatim>\<open>float64\<close> is kept as the text of its literal, since only its dynamic type matters
  to the program.
\<close>

datatype json_value =
    JNull
  | JBool bool
  | JNumber string
  | JString string
  | JArray "json_value list"
  | JObject "(string \<times> json_value) list"

text \<open>
  An \<^verbatim>\<open>io.Reader\<close> over a finished body is what \<^verbatim>\<open>io.ReadAll\<close> returns on it: the bytes
  read, and the error that ended the reading if it was not the end of the data.
\<close>

type_synonym reader = "byte list \<times> go_error option"

record request =
  Method :: string
  URL :: string
  Header :: "string \<rightharpoonup> string list"
  Payload :: "byte list"

record response =
  StatusCode :: int
  Body :: reader

record env =
  rand_bytes :: "nat \<Rightarrow> byte"
  rand_err :: "go_error option"
  X25519 :: "byte list \<Rightarrow> byte list \<Rightarrow> go_error + byte list"
  uuid_New :: "go_error + string"
  json_Marshal :: "RequestBody \<Rightarrow> go_error + byte list"
  http_NewRequest_err :: "string \<Rightarrow> string \<Rightarrow> go_error option"
  client_Do :: "request \<Rightarrow> go_error + response"
  flate_ReadAll :: "byte list \<Rightarrow> go_error + byte list"
  json_Unmarshal_DecodedData :: "byte list \<Rightarrow> go_error + DecodedData"
  json_Unmarshal_ResponseBody :: "byte list \<Rightarrow> go_error + ResponseBody"
  json_Unmarshal_Config :: "byte list \<Rightarrow> go_error + Config"
  json_Unmarshal_map :: "byte list \<Rightarrow> go_error + (string \<rightharpoonup> json_value)"

text \<open>
  \<^item> \<open>rand_bytes\<close>, \<open>rand_err\<close>: \<^verbatim>\<open>rand.Read(b)\<close> fills \<open>b\<close> with the next bytes of the
    source, or returns an error.
  \<^item> \<open>uuid_New\<close>: the text of \<^verbatim>\<open>uuid.New().String()\<close>; \<^verbatim>\<open>uuid.New\<close> panics with the
    error of the random source when that fails.
  \<^item> \<open>http_NewRequest_err\<close>: the error of \<^verbatim>\<open>http.NewRequest(method, url, body)\<close>, if any.
  \<^item> \<open>flate_ReadAll\<close>: \<^verbatim>\<open>io.ReadAll\<close> on the zlib reader, given the stream after its
    header: the inflated data, or the error of the inflater or of the checksum.
  \<^item> \<open>json_Unmarshal_T\<close>: \<^verbatim>\<open>json.Unmarshal(data, &v)\<close> for a zero \<open>v\<close> of type \<open>T\<close>: the
    error, or the value left in \<open>v\<close>.
\<close>

definition HeaderSet :: "(string \<rightharpoonup> string list) \<Rightarrow> string \<Rightarrow> string \<Rightarrow> (string \<rightharpoonup> string list)" where
  "HeaderSet h k v = h(k \<mapsto> [v])"

definition ScalarSize :: nat where
  "ScalarSize = 32"

definition Basepoint :: "byte list" where
  "Basepoint = 9 # replicate 31 0"

section \<open>The program\<close>

datatype error =
    URLEmpty
  | APIKeyEmpty
  | SerializeRequestBody go_error
  | CreateHTTPRequest go_error
  | SendHTTPRequest go_error
  | UnexpectedHTTPStatusCode int string
  | ReadResponseBody go_error
  | ParseResponseJSON go_error
  | GeneratePrivateKey go_error
  | ComputePublicKey go_error
  | DecodeData error
  | ParseJSON go_error
  | DecodeBase64
  | CreateZlibReader zlib_error
  | DecompressData go_error
  | Unmarshal go_error

text \<open>
  Each constructor is one \<^verbatim>\<open>fmt.Errorf\<close> of the source, with the values it formats:
  \<^item> \<open>URLEmpty\<close>: "URL cannot be empty" (line 128);
  \<^item> \<open>APIKeyEmpty\<close>: "API key cannot be empty" (line 131);
  \<^item> \<open>SerializeRequestBody\<close>: "failed to serialize request body: %v" (line 137);
  \<^item> \<open>CreateHTTPRequest\<close>: "failed to create HTTP request: %v" (line 143);
  \<^item> \<open>SendHTTPRequest\<close>: "failed to send HTTP request: %v" (line 154);
  \<^item> \<open>UnexpectedHTTPStatusCode\<close>: "unexpected HTTP status code: %d, Response: %s" (line 161);
  \<^item> \<open>ReadResponseBody\<close>: "failed to read response body: %v" (line 167);
  \<^item> \<open>ParseResponseJSON\<close>: "failed to parse response JSON: %v" (line 172);
  \<^item> \<open>GeneratePrivateKey\<close>: "failed to generate private key: %v" (line 184);
  \<^item> \<open>ComputePublicKey\<close>: "failed to compute public key: %v" (line 195);
  \<^item> \<open>DecodeData\<close>: "failed to decode data: %v" (line 210);
  \<^item> \<open>ParseJSON\<close>: "failed to parse JSON: %v" (line 217);
  \<^item> \<open>DecodeBase64\<close>: "failed to decode Base64 string: %v" (line 229);
  \<^item> \<open>CreateZlibReader\<close>: "failed to create zlib reader: %v" (line 235);
  \<^item> \<open>DecompressData\<close>: "failed to decompress data: %v" (line 241);
  \<^item> \<open>Unmarshal\<close>: an error of \<^verbatim>\<open>json.Unmarshal\<close> that \<open>main\<close> reports as it is
    (lines 107 and 113).

  A run-time panic is not an error value: it unwinds the program. The source can panic
  in the slice expression of line 233, the index expression of line 111, the type
  assertion of line 119 and in \<^verbatim>\<open>uuid.New\<close> (line 88).
\<close>

datatype panic =
    SliceBoundsOutOfRange nat nat
  | IndexOutOfRange nat nat
  | InterfaceConversion "json_value option"
  | UUIDPanic go_error

datatype 'a result = Ok 'a | Err error | Panic panic

subsection \<open>\<^verbatim>\<open>decode\<close> (lines 223 to 245)\<close>

text \<open>
  Lines 226 to 244, "Step 1" and "Step 2" of the source: the text is read as URL-safe
  base64, the first four bytes are cut off by the slice expression
  \<^verbatim>\<open>decodedBytes[4:]\<close>, and the rest is read as a zlib stream. The slice expression
  panics when there are fewer than four bytes.
\<close>

definition decodeSteps :: "env \<Rightarrow> string \<Rightarrow> byte list result" where
  "decodeSteps E encodedString =
     (case DecodeString encodeURL encodedString of
        None \<Rightarrow> Err DecodeBase64
      | Some decodedBytes \<Rightarrow>
          if length decodedBytes < 4
          then Panic (SliceBoundsOutOfRange 4 (length decodedBytes))
          else (case zlib_NewReader (drop 4 decodedBytes) of
                  Inl e \<Rightarrow> Err (CreateZlibReader e)
                | Inr zlibReader \<Rightarrow>
                    (case flate_ReadAll E zlibReader of
                       Inl e \<Rightarrow> Err (DecompressData e)
                     | Inr decompressedBytes \<Rightarrow> Ok decompressedBytes)))"

text \<open>Line 224 comes first: every \<^verbatim>\<open>vpn://\<close> is taken out of the text.\<close>

definition decode :: "env \<Rightarrow> string \<Rightarrow> byte list result" where
  "decode E encodedString =
     (let encodedString = strings_Replace encodedString ''vpn://'' []
      in decodeSteps E encodedString)"

subsection \<open>\<^verbatim>\<open>decodeAndParse\<close> (lines 207 to 221)\<close>

definition decodeAndParse :: "env \<Rightarrow> string \<Rightarrow> DecodedData result" where
  "decodeAndParse E encodedString =
     (case decode E encodedString of
        Err e \<Rightarrow> Err (DecodeData e)
      | Panic p \<Rightarrow> Panic p
      | Ok decompressedBytes \<Rightarrow>
          (case json_Unmarshal_DecodedData E decompressedBytes of
             Inl e \<Rightarrow> Err (ParseJSON e)
           | Inr decodedData \<Rightarrow> Ok decodedData))"

subsection \<open>\<^verbatim>\<open>GenerateX25519KeyPair\<close> (lines 179 to 203)\<close>

text \<open>Lines 188 to 190, the three assignments that clamp the scalar.\<close>

definition clamp :: "byte list \<Rightarrow> byte list" where
  "clamp privateKey =
     (let privateKey = privateKey[0 := privateKey ! 0 AND 248];
          privateKey = privateKey[31 := privateKey ! 31 AND 127];
          privateKey = privateKey[31 := privateKey ! 31 OR 64]
      in privateKey)"

text \<open>
  The result is the pair (\<^verbatim>\<open>privateKeyBase64\<close>, \<^verbatim>\<open>publicKeyBase64\<close>), in the order of
  the named results of the source.
\<close>

definition GenerateX25519KeyPair :: "env \<Rightarrow> error + string \<times> string" where
  "GenerateX25519KeyPair E =
     (case rand_err E of
        Some e \<Rightarrow> Inl (GeneratePrivateKey e)
      | None \<Rightarrow>
          (let privateKey = clamp (map (rand_bytes E) [0..<ScalarSize])
           in case X25519 E privateKey Basepoint of
                Inl e \<Rightarrow> Inl (ComputePublicKey e)
              | Inr publicKey \<Rightarrow>
                  Inr (EncodeToString encodeStd privateKey, EncodeToString encodeStd publicKey)))"

subsection \<open>\<^verbatim>\<open>sendPostRequest\<close> (lines 125 to 176)\<close>

text \<open>
  The one caller passes a \<^verbatim>\<open>RequestBody\<close> and a pointer to a zero \<^verbatim>\<open>ResponseBody\<close>; the
  model returns the value left there.
\<close>

definition sendPostRequest :: "env \<Rightarrow> string \<Rightarrow> RequestBody \<Rightarrow> string \<Rightarrow> error + ResponseBody" where
  "sendPostRequest E url body apiKey =
     (if url = [] then Inl URLEmpty
      else if apiKey = [] then Inl APIKeyEmpty
      else (case json_Marshal E body of
              Inl e \<Rightarrow> Inl (SerializeRequestBody e)
            | Inr jsonBody \<Rightarrow>
                (case http_NewRequest_err E ''POST'' url of
                   Some e \<Rightarrow> Inl (CreateHTTPRequest e)
                 | None \<Rightarrow>
                     (let req = \<lparr>Method = ''POST'', URL = url, Header = Map.empty, Payload = jsonBody\<rparr>;
                          req = req\<lparr>Header := HeaderSet (Header req) ''Content-Type'' ''application/json''\<rparr>;
                          req = req\<lparr>Header := HeaderSet (Header req) ''Authorization'' (''Api-Key '' @ apiKey)\<rparr>
                      in case client_Do E req of
                           Inl e \<Rightarrow> Inl (SendHTTPRequest e)
                         | Inr resp \<Rightarrow>
                             if StatusCode resp < 200 \<or> StatusCode resp \<ge> 300
                             then Inl (UnexpectedHTTPStatusCode (StatusCode resp)
                                         (string_of_bytes (fst (Body resp))))
                             else (case snd (Body resp) of
                                     Some e \<Rightarrow> Inl (ReadResponseBody e)
                                   | None \<Rightarrow>
                                       (case json_Unmarshal_ResponseBody E (fst (Body resp)) of
                                          Inl e \<Rightarrow> Inl (ParseResponseJSON e)
                                        | Inr response \<Rightarrow> Inr response))))))"

subsection \<open>\<^verbatim>\<open>main\<close> (lines 55 to 121)\<close>

text \<open>
  A run ends by returning, by \<^verbatim>\<open>log.Fatalf\<close> (which reports the error on the standard
  error and exits with status 1) or by a panic. What it wrote to the standard output
  until then is kept, one entry for each print. The argument \<open>key\<close> is the value of the
  flag \<^verbatim>\<open>-key\<close>; the usage text of \<^verbatim>\<open>flag.Usage\<close> goes to the standard error.
\<close>

datatype ending = Returned | LogFatal error | Panicked panic

type_synonym run = "string list \<times> ending"

definition newline :: string where
  "newline = [CHR 0x0A]"

text \<open>
  Lines 99 to 120: the response is decoded and the template is filled in. The variable
  \<open>privateKey\<close> is the one \<open>main\<close> declares on line 78.
\<close>

definition assemble :: "env \<Rightarrow> string \<Rightarrow> ResponseBody \<Rightarrow> run" where
  "assemble E privateKey responseBody =
     (case decode E (Config responseBody) of
        Err e \<Rightarrow> ([], LogFatal e)
      | Panic p \<Rightarrow> ([], Panicked p)
      | Ok decodedConfig \<Rightarrow>
          (case json_Unmarshal_Config E decodedConfig of
             Inl e \<Rightarrow> ([], LogFatal (Unmarshal e))
           | Inr config \<Rightarrow>
               (case Containers config of
                  [] \<Rightarrow> ([], Panicked (IndexOutOfRange 0 0))
                | container # _ \<Rightarrow>
                    (case json_Unmarshal_map E (bytes_of_string (LastConfig (AWG container))) of
                       Inl e \<Rightarrow> ([], LogFatal (Unmarshal e))
                     | Inr lastConfig \<Rightarrow>
                         (let out1 = newline @ ''Private key: '' @ privateKey @ newline
                          in case lastConfig ''config'' of
                               Some (JString template) \<Rightarrow>
                                 (let resp = strings_Replace template ''$WIREGUARD_CLIENT_PRIVATE_KEY'' privateKey
                                  in ([out1, newline @ ''Response: '' @ newline @ resp @ newline], Returned))
                             | v \<Rightarrow> ([out1], Panicked (InterfaceConversion v)))))))"

definition main :: "env \<Rightarrow> string \<Rightarrow> run" where
  "main E key =
     (if key = [] then ([''Error: The -key parameter is required.'' @ newline], Returned)
      else (case decodeAndParse E key of
              Err e \<Rightarrow> ([], LogFatal e)
            | Panic p \<Rightarrow> ([], Panicked p)
            | Ok decoded \<Rightarrow>
                (let url = APIEndpoint decoded;
                     apiKey = APIKey decoded
                 in case GenerateX25519KeyPair E of
                      Inl e \<Rightarrow> ([], LogFatal e)
                    | Inr (pubKey, privateKey) \<Rightarrow>
                        (case uuid_New E of
                           Inl e \<Rightarrow> ([], Panicked (UUIDPanic e))
                         | Inr uuid \<Rightarrow>
                             (let requestBody = \<lparr>PublicKey = pubKey, OSVersion = ''macOS'',
                                                 AppVersion = ''4.8.2.3'', UUID = uuid\<rparr>
                              in case sendPostRequest E url requestBody apiKey of
                                   Inl e \<Rightarrow> ([], LogFatal e)
                                 | Inr responseBody \<Rightarrow> assemble E privateKey responseBody)))))"

section \<open>A test double of the libraries\<close>

text \<open>
  The closed instances below run the program against one fixed world. Each library
  function is tabulated at the inputs the runs reach, with the value the real library
  gives there: the compressed streams are zlib's output for the documents, and the
  public key is the X25519 value (RFC 7748) of the clamped scalar with the base point.

  The documents, and the links made of them (four bytes of length, the zlib stream,
  URL-safe base64):
\<close>

definition params_json :: string where
  "params_json = ''{\"api_endpoint\":\"https://mock\",\"api_key\":\"K\"}''"

definition params_link :: string where
  "params_link = ''AAAALXicq1ZKLMiMT81LKcjPzCtRslLKKCkpKLbS18_NT85W0gHLZqdWAiW8lWoBcNQPRQ==''"

definition nokey_json :: string where
  "nokey_json = ''{\"api_endpoint\":\"https://mock\"}''"

definition nokey_link :: string where
  "nokey_link = ''AAAAH3icq1ZKLMiMT81LKcjPzCtRslLKKCkpKLbS18_NT85WqgUAtqQLKg==''"

definition template_text :: string where
  "template_text = ''PrivateKey = $WIREGUARD_CLIENT_PRIVATE_KEY''"

definition nested_json :: string where
  "nested_json = ''{\"config\":\"'' @ template_text @ ''\"}''"

text \<open>In the outer document the quotes of the nested one are escaped with a backslash.\<close>

definition good_json :: string where
  "good_json =
     ''{\"containers\":[{\"awg\":{\"last_config\":\"{'' @ [CHR 0x5C] @ ''\"config'' @ [CHR 0x5C] @
     ''\":'' @ [CHR 0x5C] @ ''\"'' @ template_text @ [CHR 0x5C] @ ''\"}\"}}]}''"

definition good_link :: string where
  "good_link = ''AAAAZnicq1ZKzs8rSczMSy0qVrKKrlZKLE9XsqpWykksLokHSqVlArlK1TFKEHaMklWMUkBRZlliSap3aqWCrYJKuGeQq3uoY5BLvLOPp6tfSHxAkGeYY4hrvLdrZIxSrVJtbWwtABA4Iiw=''"

definition nocontainers_json :: string where
  "nocontainers_json = ''{\"containers\":[]}''"

definition nocontainers_link :: string where
  "nocontainers_link = ''AAAAEXicq1ZKzs8rSczMSy0qVrKKjq0FADo2BmU=''"

definition notemplate_json :: string where
  "notemplate_json = ''{\"containers\":[{\"awg\":{\"last_config\":\"{}\"}}]}''"

definition notemplate_link :: string where
  "notemplate_link = ''AAAALXicq1ZKzs8rSczMSy0qVrKKrlZKLE9XsqpWykksLokHSqVlArlK1bVKtbWxtQB3kRBV''"

text \<open>The two links as they are given on the command line, with the scheme marker.\<close>

definition params_key :: string where
  "params_key = ''vpn://'' @ params_link"

definition nokey_key :: string where
  "nokey_key = ''vpn://'' @ nokey_link"

text \<open>The deflate stream inside a link: what follows the length and the zlib header.\<close>

definition stream_of :: "string \<Rightarrow> byte list" where
  "stream_of link = (case DecodeString encodeURL link of Some b \<Rightarrow> drop 6 b | None \<Rightarrow> [])"

definition mock_flate :: "byte list \<Rightarrow> go_error + byte list" where
  "mock_flate r =
     (if r = stream_of params_link then Inr (bytes_of_string params_json)
      else if r = stream_of nokey_link then Inr (bytes_of_string nokey_json)
      else if r = stream_of good_link then Inr (bytes_of_string good_json)
      else if r = stream_of nocontainers_link then Inr (bytes_of_string nocontainers_json)
      else if r = stream_of notemplate_link then Inr (bytes_of_string notemplate_json)
      else Inl ''flate: corrupt input'')"

definition mock_Unmarshal_DecodedData :: "byte list \<Rightarrow> go_error + DecodedData" where
  "mock_Unmarshal_DecodedData d =
     (if d = bytes_of_string params_json
      then Inr \<lparr>APIEndpoint = ''https://mock'', APIKey = ''K''\<rparr>
      else if d = bytes_of_string nokey_json
      then Inr \<lparr>APIEndpoint = ''https://mock'', APIKey = []\<rparr>
      else Inl ''unexpected end of JSON input'')"

definition mock_Unmarshal_Config :: "byte list \<Rightarrow> go_error + Config" where
  "mock_Unmarshal_Config d =
     (if d = bytes_of_string good_json
      then Inr \<lparr>Containers = [\<lparr>AWG = \<lparr>LastConfig = nested_json\<rparr>\<rparr>]\<rparr>
      else if d = bytes_of_string nocontainers_json
      then Inr \<lparr>Containers = []\<rparr>
      else if d = bytes_of_string notemplate_json
      then Inr \<lparr>Containers = [\<lparr>AWG = \<lparr>LastConfig = ''{}''\<rparr>\<rparr>]\<rparr>
      else Inl ''unexpected end of JSON input'')"

definition mock_Unmarshal_map :: "byte list \<Rightarrow> go_error + (string \<rightharpoonup> json_value)" where
  "mock_Unmarshal_map d =
     (if d = bytes_of_string nested_json then Inr [''config'' \<mapsto> JString template_text]
      else if d = bytes_of_string ''{}'' then Inr Map.empty
      else Inl ''unexpected end of JSON input'')"

definition response_json :: "string \<Rightarrow> string" where
  "response_json link = ''{\"config\":\"'' @ link @ ''\"}''"

definition mock_Unmarshal_ResponseBody :: "byte list \<Rightarrow> go_error + ResponseBody" where
  "mock_Unmarshal_ResponseBody d =
     (if d = bytes_of_string (response_json good_link) then Inr \<lparr>Config = good_link\<rparr>
      else if d = bytes_of_string (response_json nocontainers_link) then Inr \<lparr>Config = nocontainers_link\<rparr>
      else if d = bytes_of_string (response_json notemplate_link) then Inr \<lparr>Config = notemplate_link\<rparr>
      else Inl ''unexpected end of JSON input'')"

definition mock_Marshal :: "RequestBody \<Rightarrow> go_error + byte list" where
  "mock_Marshal b =
     Inr (bytes_of_string
           (''{\"public_key\":\"'' @ PublicKey b @ ''\",\"os_version\":\"'' @ OSVersion b @
            ''\",\"app_version\":\"'' @ AppVersion b @ ''\",\"uuid\":\"'' @ UUID b @ ''\"}''))"

text \<open>The random source gives the bytes 0, 1, 2, ...; the scalar and its public key:\<close>

definition mock_scalar :: "byte list" where
  "mock_scalar =
     [0, 1, 2, 3, 4, 5, 6, 7, 8, 9, 10, 11, 12, 13, 14, 15, 16, 17, 18, 19, 20, 21, 22, 23,
      24, 25, 26, 27, 28, 29, 30, 95]"

definition mock_public :: "byte list" where
  "mock_public =
     [143, 64, 197, 173, 182, 143, 37, 98, 74, 229, 178, 20, 234, 118, 122, 110, 201, 77,
      130, 157, 61, 123, 94, 26, 209, 186, 111, 62, 33, 56, 40, 95]"

definition mock_X25519 :: "byte list \<Rightarrow> byte list \<Rightarrow> go_error + byte list" where
  "mock_X25519 scalar point =
     (if scalar = mock_scalar \<and> point = Basepoint then Inr mock_public
      else Inl ''bad input point: low order point'')"

text \<open>
  The server answers every well-formed request with the response it is given: the
  request must be a POST to the endpoint of the link, with the credential of the link.
\<close>

definition mock_server :: "response \<Rightarrow> request \<Rightarrow> go_error + response" where
  "mock_server resp req =
     (if Method req = ''POST'' \<and> URL req = ''https://mock'' \<and>
         Header req ''Content-Type'' = Some [''application/json''] \<and>
         Header req ''Authorization'' = Some [''Api-Key K'']
      then Inr resp
      else Inl ''dial tcp: connection refused'')"

definition mock_env :: "response \<Rightarrow> env" where
  "mock_env resp =
     \<lparr>rand_bytes = of_nat,
      rand_err = None,
      X25519 = mock_X25519,
      uuid_New = Inr ''6ba7b810-9dad-41d1-80b4-00c04fd430c8'',
      json_Marshal = mock_Marshal,
      http_NewRequest_err = (\<lambda>method url. None),
      client_Do = mock_server resp,
      flate_ReadAll = mock_flate,
      json_Unmarshal_DecodedData = mock_Unmarshal_DecodedData,
      json_Unmarshal_ResponseBody = mock_Unmarshal_ResponseBody,
      json_Unmarshal_Config = mock_Unmarshal_Config,
      json_Unmarshal_map = mock_Unmarshal_map\<rparr>"

definition ok_response :: "string \<Rightarrow> response" where
  "ok_response link = \<lparr>StatusCode = 200, Body = (bytes_of_string (response_json link), None)\<rparr>"

definition forbidden_response :: response where
  "forbidden_response = \<lparr>StatusCode = 403, Body = (bytes_of_string ''forbidden'', None)\<rparr>"

section \<open>Properties of the library functions\<close>

lemma Replace_absent:
  "\<not> sublist (c # cs) s \<Longrightarrow> strings_Replace s (c # cs) new = s"
  by (induction s) (auto simp: sublist_Cons_right)

lemma Replace_Cons_no_prefix:
  "\<not> prefix (c # cs) (x # xs) \<Longrightarrow>
   strings_Replace (x # xs) (c # cs) new = x # strings_Replace xs (c # cs) new"
  by auto

lemma Replace_prefix:
  "strings_Replace ((c # cs) @ r) (c # cs) new = new @ strings_Replace r (c # cs) new"
  by simp

text \<open>
  No proper end of the marker is a beginning of it, so an occurrence cannot begin in the
  text before another occurrence and run into it.
\<close>

lemma marker_not_across:
  assumes "\<not> prefix ''vpn://'' a" and "a \<noteq> []"
  shows "\<not> prefix ''vpn://'' (a @ ''vpn://'' @ b)"
  using assms by (auto simp: prefix_append Cons_eq_append_conv)

lemma Replace_marker_append:
  "strings_Replace (a @ ''vpn://'' @ b) ''vpn://'' [] =
   strings_Replace a ''vpn://'' [] @ strings_Replace b ''vpn://'' []"
proof (induction a rule: length_induct)
  case (1 a)
  show ?case
  proof (cases a)
    case Nil
    then show ?thesis by simp
  next
    case (Cons x xs)
    show ?thesis
    proof (cases "prefix ''vpn://'' a")
      case True
      then obtain r where r: "a = ''vpn://'' @ r"
        by (auto elim: prefixE)
      then have "length r < length a" by simp
      with 1 have "strings_Replace (r @ ''vpn://'' @ b) ''vpn://'' [] =
        strings_Replace r ''vpn://'' [] @ strings_Replace b ''vpn://'' []"
        by blast
      then show ?thesis
        unfolding r using Replace_prefix [of "CHR ''v''" "''pn://''" _ "[]"] by simp
    next
      case False
      with Cons have across: "\<not> prefix ''vpn://'' (x # xs @ ''vpn://'' @ b)"
        using marker_not_across [of a b] by simp
      have "length xs < length a" using Cons by simp
      with 1 have "strings_Replace (xs @ ''vpn://'' @ b) ''vpn://'' [] =
        strings_Replace xs ''vpn://'' [] @ strings_Replace b ''vpn://'' []"
        by blast
      then have "strings_Replace (x # xs @ ''vpn://'' @ b) ''vpn://'' [] =
        x # strings_Replace xs ''vpn://'' [] @ strings_Replace b ''vpn://'' []"
        using Replace_Cons_no_prefix [OF across] by simp
      moreover have "strings_Replace (x # xs) ''vpn://'' [] = x # strings_Replace xs ''vpn://'' []"
        using False Cons by (intro Replace_Cons_no_prefix) simp
      ultimately show ?thesis
        unfolding Cons by simp
    qed
  qed
qed

text \<open>A text that is URL-safe base64 has no colon in it, hence no marker.\<close>

lemma decodeQuanta_alphabet:
  "decodeQuanta enc s = Some bs \<Longrightarrow> c \<in> set s \<Longrightarrow> decodeMap enc c \<noteq> None \<or> c = CHR ''=''"
  by (induction enc s arbitrary: bs rule: decodeQuanta.induct)
    (auto simp: Let_def split: option.splits if_splits)

lemma base64_text_has_no_marker:
  assumes "DecodeString encodeURL s = Some bs"
  shows "strings_Replace s ''vpn://'' [] = s"
proof -
  have "CHR '':'' \<notin> set s"
  proof
    assume "CHR '':'' \<in> set s"
    then have "CHR '':'' \<in> set (filter (\<lambda>c. c \<noteq> CHR 0x0A \<and> c \<noteq> CHR 0x0D) s)"
      by simp
    with assms have "decodeMap encodeURL (CHR '':'') \<noteq> None \<or> CHR '':'' = CHR ''=''"
      unfolding DecodeString_def by (rule decodeQuanta_alphabet)
    then show False
      by (simp add: encodeURL_def)
  qed
  moreover have "CHR '':'' \<in> set s" if "sublist ''vpn://'' s"
    using set_mono_sublist [OF that] by simp
  ultimately have "\<not> sublist ''vpn://'' s"
    by blast
  then show ?thesis
    by (rule Replace_absent)
qed

lemma unat_of_char: "unat (of_char c :: byte) = of_char c"
proof -
  have "(of_char c :: byte) = of_nat (of_char c)"
    by (simp add: of_nat_of_char)
  moreover have "(of_char c :: nat) < 256"
    by (rule nat_of_char_less_256)
  ultimately show ?thesis
    by (simp add: unat_of_nat)
qed

lemma string_of_bytes_of_string: "string_of_bytes (bytes_of_string s) = s"
  by (induction s) (simp_all add: string_of_bytes_def bytes_of_string_def unat_of_char)

lemma clamp_nth:
  assumes "length seed = 32"
  shows "clamp seed ! 0 = seed ! 0 AND 248"
    and "clamp seed ! 31 = (seed ! 31 AND 127) OR 64"
    and "0 < i \<Longrightarrow> i < 31 \<Longrightarrow> clamp seed ! i = seed ! i"
    and "length (clamp seed) = 32"
  using assms by (simp_all add: clamp_def)

lemma clamp_bits:
  fixes x :: byte
  shows "(x AND 248) AND 7 = 0"
    and "((x AND 127) OR 64) AND 128 = 0"
    and "((x AND 127) OR 64) AND 64 = 64"
    and "(x AND 248) AND 248 = x AND 248"
    and "((x AND 127) OR 64) AND 63 = x AND 63"
  by (simp_all add: bit.conj_disj_distrib2 and.assoc)

section \<open>Runs of the test double\<close>

lemma mock_env_simps:
  "rand_bytes (mock_env r) = of_nat"
  "rand_err (mock_env r) = None"
  "X25519 (mock_env r) = mock_X25519"
  "uuid_New (mock_env r) = Inr ''6ba7b810-9dad-41d1-80b4-00c04fd430c8''"
  "json_Marshal (mock_env r) = mock_Marshal"
  "http_NewRequest_err (mock_env r) = (\<lambda>method url. None)"
  "client_Do (mock_env r) = mock_server r"
  "flate_ReadAll (mock_env r) = mock_flate"
  "json_Unmarshal_DecodedData (mock_env r) = mock_Unmarshal_DecodedData"
  "json_Unmarshal_ResponseBody (mock_env r) = mock_Unmarshal_ResponseBody"
  "json_Unmarshal_Config (mock_env r) = mock_Unmarshal_Config"
  "json_Unmarshal_map (mock_env r) = mock_Unmarshal_map"
  by (simp_all add: mock_env_def)

lemma mock_seed: "clamp (map of_nat [0..<ScalarSize]) = mock_scalar"
  by (simp add: clamp_def ScalarSize_def mock_scalar_def upt_conv_Cons)

lemma mock_keys_base64:
  "EncodeToString encodeStd mock_scalar = ''AAECAwQFBgcICQoLDA0ODxAREhMUFRYXGBkaGxwdHl8=''"
  "EncodeToString encodeStd mock_public = ''j0DFrbaPJWJK5bIU6nZ6bslNgp09e14a0bpvPiE4KF8=''"
  by (simp_all add: mock_scalar_def mock_public_def encodeStd_def)

lemma links_without_marker:
  "strings_Replace params_key ''vpn://'' [] = params_link"
  "strings_Replace nokey_key ''vpn://'' [] = nokey_link"
  "strings_Replace good_link ''vpn://'' [] = good_link"
  "strings_Replace nocontainers_link ''vpn://'' [] = nocontainers_link"
  "strings_Replace notemplate_link ''vpn://'' [] = notemplate_link"
  by (simp_all add: params_key_def nokey_key_def params_link_def nokey_link_def good_link_def
      nocontainers_link_def notemplate_link_def)

lemma params_link_bytes:
  "DecodeString encodeURL params_link =
     Some
      [0, 0, 0, 45, 120, 156, 171, 86, 74, 44, 200, 140, 79, 205, 75, 41, 200, 207,
       204, 43, 81, 178, 82, 202, 40, 41, 41, 40, 182, 210, 215, 207, 205, 79, 206,
       86, 210, 1, 203, 102, 167, 86, 2, 37, 188, 149, 106, 1, 112, 212, 15, 69]"
  by (simp add: DecodeString_def encodeURL_def params_link_def)

lemma nokey_link_bytes:
  "DecodeString encodeURL nokey_link =
     Some
      [0, 0, 0, 31, 120, 156, 171, 86, 74, 44, 200, 140, 79, 205, 75, 41, 200, 207,
       204, 43, 81, 178, 82, 202, 40, 41, 41, 40, 182, 210, 215, 207, 205, 79, 206,
       86, 170, 5, 0, 182, 164, 11, 42]"
  by (simp add: DecodeString_def encodeURL_def nokey_link_def)

lemma good_link_bytes:
  "DecodeString encodeURL good_link =
     Some
      [0, 0, 0, 102, 120, 156, 171, 86, 74, 206, 207, 43, 73, 204, 204, 75, 45, 42,
       86, 178, 138, 174, 86, 74, 44, 79, 87, 178, 170, 86, 202, 73, 44, 46, 137, 7,
       74, 165, 101, 2, 185, 74, 213, 49, 74, 16, 118, 140, 146, 85, 140, 82, 64,
       81, 102, 89, 98, 73, 170, 119, 106, 165, 130, 173, 130, 74, 184, 103, 144,
       171, 123, 168, 99, 144, 75, 188, 179, 143, 167, 171, 95, 72, 124, 64, 144,
       103, 152, 99, 136, 107, 188, 183, 107, 100, 140, 82, 173, 82, 109, 109, 108,
       45, 0, 16, 56, 34, 44]"
  by (simp add: DecodeString_def encodeURL_def good_link_def)

lemma nocontainers_link_bytes:
  "DecodeString encodeURL nocontainers_link =
     Some
      [0, 0, 0, 17, 120, 156, 171, 86, 74, 206, 207, 43, 73, 204, 204, 75, 45, 42,
       86, 178, 138, 142, 173, 5, 0, 58, 54, 6, 101]"
  by (simp add: DecodeString_def encodeURL_def nocontainers_link_def)

lemma notemplate_link_bytes:
  "DecodeString encodeURL notemplate_link =
     Some
      [0, 0, 0, 45, 120, 156, 171, 86, 74, 206, 207, 43, 73, 204, 204, 75, 45, 42,
       86, 178, 138, 174, 86, 74, 44, 79, 87, 178, 170, 86, 202, 73, 44, 46, 137, 7,
       74, 165, 101, 2, 185, 74, 213, 181, 74, 181, 181, 177, 181, 0, 119, 145, 16,
       85]"
  by (simp add: DecodeString_def encodeURL_def notemplate_link_def)

lemma mock_streams:
  "stream_of params_link \<noteq> stream_of nokey_link"
  "stream_of params_link \<noteq> stream_of good_link"
  "stream_of params_link \<noteq> stream_of nocontainers_link"
  "stream_of params_link \<noteq> stream_of notemplate_link"
  "stream_of nokey_link \<noteq> stream_of good_link"
  "stream_of nokey_link \<noteq> stream_of nocontainers_link"
  "stream_of nokey_link \<noteq> stream_of notemplate_link"
  "stream_of good_link \<noteq> stream_of nocontainers_link"
  "stream_of good_link \<noteq> stream_of notemplate_link"
  "stream_of nocontainers_link \<noteq> stream_of notemplate_link"
  by (simp_all add: stream_of_def params_link_bytes nokey_link_bytes good_link_bytes
      nocontainers_link_bytes notemplate_link_bytes)

lemma mock_decodeSteps:
  "decodeSteps (mock_env r) params_link = Ok (bytes_of_string params_json)"
  "decodeSteps (mock_env r) nokey_link = Ok (bytes_of_string nokey_json)"
  "decodeSteps (mock_env r) good_link = Ok (bytes_of_string good_json)"
  "decodeSteps (mock_env r) nocontainers_link = Ok (bytes_of_string nocontainers_json)"
  "decodeSteps (mock_env r) notemplate_link = Ok (bytes_of_string notemplate_json)"
proof -
  have hdr: "zlib_NewReader (120 # 156 # rest) = Inr rest" for rest
    by (simp add: zlib_NewReader_def)
  have steps: "decodeSteps (mock_env r) link = (case mock_flate (stream_of link) of
      Inl e \<Rightarrow> Err (DecompressData e) | Inr b \<Rightarrow> Ok b)"
    if "DecodeString encodeURL link = Some (b0 # b1 # b2 # b3 # 120 # 156 # rest)"
    for link b0 b1 b2 b3 rest
    using that by (simp add: decodeSteps_def stream_of_def hdr mock_env_simps)
  show "decodeSteps (mock_env r) params_link = Ok (bytes_of_string params_json)"
    by (simp add: steps [OF params_link_bytes] mock_flate_def)
  show "decodeSteps (mock_env r) nokey_link = Ok (bytes_of_string nokey_json)"
    by (simp add: steps [OF nokey_link_bytes] mock_flate_def mock_streams [symmetric])
  show "decodeSteps (mock_env r) good_link = Ok (bytes_of_string good_json)"
    by (simp add: steps [OF good_link_bytes] mock_flate_def mock_streams [symmetric])
  show "decodeSteps (mock_env r) nocontainers_link = Ok (bytes_of_string nocontainers_json)"
    by (simp add: steps [OF nocontainers_link_bytes] mock_flate_def mock_streams [symmetric])
  show "decodeSteps (mock_env r) notemplate_link = Ok (bytes_of_string notemplate_json)"
    by (simp add: steps [OF notemplate_link_bytes] mock_flate_def mock_streams [symmetric])
qed

lemma mock_decode:
  "decode (mock_env r) params_key = Ok (bytes_of_string params_json)"
  "decode (mock_env r) nokey_key = Ok (bytes_of_string nokey_json)"
  "decode (mock_env r) good_link = Ok (bytes_of_string good_json)"
  "decode (mock_env r) nocontainers_link = Ok (bytes_of_string nocontainers_json)"
  "decode (mock_env r) notemplate_link = Ok (bytes_of_string notemplate_json)"
  by (simp_all only: decode_def Let_def links_without_marker mock_decodeSteps)

lemma mock_documents:
  "bytes_of_string nokey_json \<noteq> bytes_of_string params_json"
  "bytes_of_string nocontainers_json \<noteq> bytes_of_string good_json"
  "bytes_of_string notemplate_json \<noteq> bytes_of_string good_json"
  "bytes_of_string notemplate_json \<noteq> bytes_of_string nocontainers_json"
  "bytes_of_string ''{}'' \<noteq> bytes_of_string nested_json"
  by (simp_all add: bytes_of_string_def params_json_def nokey_json_def good_json_def
      nocontainers_json_def notemplate_json_def nested_json_def)

lemma mock_decodeAndParse_params:
  "decodeAndParse (mock_env r) params_key =
     Ok \<lparr>APIEndpoint = ''https://mock'', APIKey = ''K''\<rparr>"
  by (simp add: decodeAndParse_def mock_decode mock_env_simps mock_Unmarshal_DecodedData_def)

lemma mock_decodeAndParse_nokey:
  "decodeAndParse (mock_env r) nokey_key =
     Ok \<lparr>APIEndpoint = ''https://mock'', APIKey = []\<rparr>"
  by (simp add: decodeAndParse_def mock_decode mock_env_simps mock_Unmarshal_DecodedData_def
      mock_documents)

lemma mock_keypair:
  "GenerateX25519KeyPair (mock_env r) =
     Inr (''AAECAwQFBgcICQoLDA0ODxAREhMUFRYXGBkaGxwdHl8='',
          ''j0DFrbaPJWJK5bIU6nZ6bslNgp09e14a0bpvPiE4KF8='')"
  by (simp add: GenerateX25519KeyPair_def mock_env_simps mock_seed mock_X25519_def
      mock_keys_base64)

lemma mock_key_nonempty: "params_key \<noteq> []" "nokey_key \<noteq> []"
  by (simp_all add: params_key_def nokey_key_def)

lemma mock_exchange:
  "sendPostRequest (mock_env forbidden_response) ''https://mock'' body ''K'' =
     Inl (UnexpectedHTTPStatusCode 403 ''forbidden'')"
  "sendPostRequest (mock_env (ok_response good_link)) ''https://mock'' body ''K'' =
     Inr \<lparr>Config = good_link\<rparr>"
  by (simp_all add: sendPostRequest_def mock_env_simps mock_Marshal_def mock_server_def
      HeaderSet_def forbidden_response_def ok_response_def string_of_bytes_of_string
      mock_Unmarshal_ResponseBody_def)

lemma mock_exchange_other:
  "sendPostRequest (mock_env (ok_response nocontainers_link)) ''https://mock'' body ''K'' =
     Inr \<lparr>Config = nocontainers_link\<rparr>"
  "sendPostRequest (mock_env (ok_response notemplate_link)) ''https://mock'' body ''K'' =
     Inr \<lparr>Config = notemplate_link\<rparr>"
proof -
  have "response_json nocontainers_link \<noteq> response_json good_link"
    and "response_json notemplate_link \<noteq> response_json good_link"
    and "response_json notemplate_link \<noteq> response_json nocontainers_link"
    by (simp_all add: response_json_def good_link_def nocontainers_link_def notemplate_link_def)
  then have differ: "bytes_of_string (response_json nocontainers_link) \<noteq> bytes_of_string (response_json good_link)"
    "bytes_of_string (response_json notemplate_link) \<noteq> bytes_of_string (response_json good_link)"
    "bytes_of_string (response_json notemplate_link) \<noteq> bytes_of_string (response_json nocontainers_link)"
    by (metis string_of_bytes_of_string)+
  show "sendPostRequest (mock_env (ok_response nocontainers_link)) ''https://mock'' body ''K'' =
     Inr \<lparr>Config = nocontainers_link\<rparr>"
    by (simp add: sendPostRequest_def mock_env_simps mock_Marshal_def mock_server_def
        HeaderSet_def ok_response_def mock_Unmarshal_ResponseBody_def differ)
  show "sendPostRequest (mock_env (ok_response notemplate_link)) ''https://mock'' body ''K'' =
     Inr \<lparr>Config = notemplate_link\<rparr>"
    by (simp add: sendPostRequest_def mock_env_simps mock_Marshal_def mock_server_def
        HeaderSet_def ok_response_def mock_Unmarshal_ResponseBody_def differ)
qed

text \<open>With the link of the test double, \<open>main\<close> comes to the exchange with the server.\<close>

lemma mock_main:
  "main (mock_env r) params_key =
     (case sendPostRequest (mock_env r) ''https://mock''
             \<lparr>PublicKey = ''AAECAwQFBgcICQoLDA0ODxAREhMUFRYXGBkaGxwdHl8='', OSVersion = ''macOS'',
              AppVersion = ''4.8.2.3'', UUID = ''6ba7b810-9dad-41d1-80b4-00c04fd430c8''\<rparr> ''K'' of
        Inl e \<Rightarrow> ([], LogFatal e)
      | Inr responseBody \<Rightarrow>
          assemble (mock_env r) ''j0DFrbaPJWJK5bIU6nZ6bslNgp09e14a0bpvPiE4KF8='' responseBody)"
  by (simp add: main_def mock_key_nonempty mock_decodeAndParse_params mock_keypair mock_env_simps)

lemma mock_template_filled:
  "strings_Replace template_text ''$WIREGUARD_CLIENT_PRIVATE_KEY''
     ''j0DFrbaPJWJK5bIU6nZ6bslNgp09e14a0bpvPiE4KF8='' =
   ''PrivateKey = j0DFrbaPJWJK5bIU6nZ6bslNgp09e14a0bpvPiE4KF8=''"
  by (simp add: template_text_def)

section \<open>The decoding of a link\<close>

text \<open>
  C7, as the program has it. \<open>decode\<close> takes the marker \<^verbatim>\<open>vpn://\<close> out wherever it
  stands, not only at the front: an occurrence between any two texts \<open>a\<close> and \<open>b\<close> is
  removed, and the same is done within \<open>a\<close> and within \<open>b\<close>. A text with no marker in it
  goes to the base64 decoder as it is; the missing marker is no error.
\<close>

theorem decode_removes_every_marker:
  "decode E (a @ ''vpn://'' @ b) =
     decodeSteps E (strings_Replace a ''vpn://'' [] @ strings_Replace b ''vpn://'' [])
   \<and> (\<not> sublist ''vpn://'' s \<longrightarrow> decode E s = decodeSteps E s)"
proof -
  have "decode E (a @ ''vpn://'' @ b) =
      decodeSteps E (strings_Replace a ''vpn://'' [] @ strings_Replace b ''vpn://'' [])"
    by (simp only: decode_def Let_def Replace_marker_append)
  moreover have "decode E s = decodeSteps E s" if "\<not> sublist ''vpn://'' s"
    using that by (simp add: decode_def Replace_absent)
  ultimately show ?thesis by blast
qed

theorem decode_removes_every_marker_witness:
  "\<not> sublist ''vpn://'' ''AAAAAA==''
   \<and> decode (mock_env forbidden_response) ''AAAAAA=='' =
       decodeSteps (mock_env forbidden_response) ''AAAAAA==''
   \<and> decode (mock_env forbidden_response) (''AAAA'' @ ''vpn://'' @ ''AA=='') =
       decodeSteps (mock_env forbidden_response) ''AAAAAA==''"
proof -
  have absent: "\<not> sublist ''vpn://'' ''AAAAAA==''"
    by (simp add: sublist_Cons_right)
  have parts: "strings_Replace ''AAAA'' ''vpn://'' [] @ strings_Replace ''AA=='' ''vpn://'' [] = ''AAAAAA==''"
    by simp
  show ?thesis
    using absent parts
      decode_removes_every_marker [of "mock_env forbidden_response" "''AAAA''" "''AA==''" "''AAAAAA==''"]
    by simp
qed

text \<open>
  The claim as the specification words it (the marker is removed only as a leading
  prefix, the rest is decoded unchanged) fails on a text with the marker inside: read as
  it is, the text is no base64, while \<open>decode\<close> removes the marker, decodes six bytes
  and fails later, at the zlib header.
\<close>

theorem decode_marker_inside_counterexample:
  "decode (mock_env forbidden_response) ''AAAAvpn://AAAA'' \<noteq>
     decodeSteps (mock_env forbidden_response)
       (if prefix ''vpn://'' ''AAAAvpn://AAAA'' then drop 6 ''AAAAvpn://AAAA'' else ''AAAAvpn://AAAA'')
   \<and> decodeSteps (mock_env forbidden_response) ''AAAAvpn://AAAA'' = Err DecodeBase64
   \<and> decode (mock_env forbidden_response) ''AAAAvpn://AAAA'' = Err (CreateZlibReader ErrHeader)"
  by (simp add: decode_def decodeSteps_def DecodeString_def encodeURL_def zlib_NewReader_def)

text \<open>
  The two theorems that follow are about a text that is URL-safe base64, as it is given
  or once its markers are taken out. The first case is a case of the second, since no
  text with a marker in it is base64 (\<open>base64_text_has_no_marker\<close>).
\<close>

lemma decoded_after_markers:
  assumes "DecodeString encodeURL s = Some decodedBytes
    \<or> DecodeString encodeURL (strings_Replace s ''vpn://'' []) = Some decodedBytes"
  shows "DecodeString encodeURL (strings_Replace s ''vpn://'' []) = Some decodedBytes"
  using assms base64_text_has_no_marker [of s decodedBytes] by auto

text \<open>
  C10. When the text decodes to exactly four bytes, the slice \<^verbatim>\<open>decodedBytes[4:]\<close> is
  empty and does not panic, \<^verbatim>\<open>zlib.NewReader\<close> finds no header in it, and \<open>decode\<close>
  returns the error "failed to create zlib reader: unexpected EOF": neither a success
  nor a truncation.
\<close>

theorem decode_exactly_four_bytes:
  assumes "DecodeString encodeURL s = Some decodedBytes
    \<or> DecodeString encodeURL (strings_Replace s ''vpn://'' []) = Some decodedBytes"
    and "length decodedBytes = 4"
  shows "decode E s = Err (CreateZlibReader ErrUnexpectedEOF)"
  using decoded_after_markers [OF assms(1)] assms(2)
  by (simp add: decode_def decodeSteps_def zlib_NewReader_def)

theorem decode_exactly_four_bytes_witness:
  "DecodeString encodeURL ''AAAAAA=='' = Some [0, 0, 0, 0]
   \<and> length [0 :: byte, 0, 0, 0] = 4
   \<and> decode (mock_env forbidden_response) ''AAAAAA=='' = Err (CreateZlibReader ErrUnexpectedEOF)
   \<and> decode (mock_env forbidden_response) ''vpn://AAAAAA=='' = Err (CreateZlibReader ErrUnexpectedEOF)"
proof -
  have h: "DecodeString encodeURL ''AAAAAA=='' = Some [0, 0, 0, 0]"
    by (simp add: DecodeString_def encodeURL_def)
  have h': "DecodeString encodeURL (strings_Replace ''vpn://AAAAAA=='' ''vpn://'' []) = Some [0, 0, 0, 0]"
    by (simp add: DecodeString_def encodeURL_def)
  show ?thesis
    using h decode_exactly_four_bytes [OF disjI1 [OF h], of "mock_env forbidden_response"]
      decode_exactly_four_bytes [OF disjI2 [OF h'], of "mock_env forbidden_response"]
    by simp
qed

text \<open>
  C3. When the text decodes to fewer than four bytes, the slice expression panics:
  \<open>decode\<close> returns no error value, the program is unwound with "slice bounds out of
  range [4:n]".
\<close>

theorem decode_short_payload_panics:
  assumes "DecodeString encodeURL s = Some decodedBytes
    \<or> DecodeString encodeURL (strings_Replace s ''vpn://'' []) = Some decodedBytes"
    and "length decodedBytes < 4"
  shows "decode E s = Panic (SliceBoundsOutOfRange 4 (length decodedBytes))"
  using decoded_after_markers [OF assms(1)] assms(2)
  by (simp add: decode_def decodeSteps_def)

theorem decode_short_payload_panics_witness:
  "DecodeString encodeURL ''AAAA'' = Some [0, 0, 0]
   \<and> length [0 :: byte, 0, 0] < 4
   \<and> decode (mock_env forbidden_response) ''AAAA'' = Panic (SliceBoundsOutOfRange 4 3)
   \<and> main (mock_env forbidden_response) ''AAAA'' = ([], Panicked (SliceBoundsOutOfRange 4 3))"
proof -
  have h: "DecodeString encodeURL ''AAAA'' = Some [0, 0, 0]"
    by (simp add: DecodeString_def encodeURL_def)
  have "decode (mock_env forbidden_response) ''AAAA'' = Panic (SliceBoundsOutOfRange 4 3)"
    using decode_short_payload_panics [OF disjI1 [OF h], of "mock_env forbidden_response"] by simp
  then show ?thesis
    using h by (simp add: main_def decodeAndParse_def)
qed

section \<open>The parameters of a link\<close>

text \<open>
  C5, as the program has it. \<open>decodeAndParse\<close> fails on a decoded payload exactly when
  \<^verbatim>\<open>json.Unmarshal\<close> reports an error (as it does for a field of the wrong type), with
  "failed to parse JSON". Otherwise it returns the record \<^verbatim>\<open>json.Unmarshal\<close> filled in
  and checks nothing: a field the document does not have stays the empty string. An
  empty endpoint or credential is refused afterwards, by the validation at the head of
  \<open>sendPostRequest\<close>, and the run ends there by \<^verbatim>\<open>log.Fatalf\<close> with "URL cannot be
  empty" or "API key cannot be empty".
\<close>

theorem parse_returns_the_unmarshalled_record:
  assumes "key \<noteq> []"
    and "decode E key = Ok payload"
  shows "decodeAndParse E key =
           (case json_Unmarshal_DecodedData E payload of
              Inl e \<Rightarrow> Err (ParseJSON e)
            | Inr decodedData \<Rightarrow> Ok decodedData)
         \<and> sendPostRequest E [] body apiKey = Inl URLEmpty
         \<and> (url \<noteq> [] \<longrightarrow> sendPostRequest E url body [] = Inl APIKeyEmpty)
         \<and> (\<forall>d keys uuid.
               json_Unmarshal_DecodedData E payload = Inr d
               \<and> (APIEndpoint d = [] \<or> APIKey d = [])
               \<and> GenerateX25519KeyPair E = Inr keys \<and> uuid_New E = Inr uuid \<longrightarrow>
               main E key = ([], LogFatal (if APIEndpoint d = [] then URLEmpty else APIKeyEmpty)))"
proof -
  have parse: "decodeAndParse E key =
      (case json_Unmarshal_DecodedData E payload of
         Inl e \<Rightarrow> Err (ParseJSON e)
       | Inr decodedData \<Rightarrow> Ok decodedData)"
    using assms(2) by (simp add: decodeAndParse_def)
  have guard: "sendPostRequest E [] body apiKey = Inl URLEmpty"
    "url \<noteq> [] \<Longrightarrow> sendPostRequest E url body [] = Inl APIKeyEmpty"
    by (simp_all add: sendPostRequest_def)
  have run: "main E key = ([], LogFatal (if APIEndpoint d = [] then URLEmpty else APIKeyEmpty))"
    if "json_Unmarshal_DecodedData E payload = Inr d"
      and "APIEndpoint d = [] \<or> APIKey d = []"
      and "GenerateX25519KeyPair E = Inr keys" and "uuid_New E = Inr uuid"
    for d keys uuid
  proof -
    obtain pubKey privateKey where keys: "keys = (pubKey, privateKey)"
      by (cases keys)
    have "decodeAndParse E key = Ok d"
      using that(1) by (simp add: parse)
    then show ?thesis
      using assms(1) that(2,3,4) unfolding keys
      by (auto simp: main_def sendPostRequest_def)
  qed
  from parse guard run show ?thesis by blast
qed

theorem parse_returns_the_unmarshalled_record_witness:
  "nokey_key \<noteq> []
   \<and> decode (mock_env forbidden_response) nokey_key = Ok (bytes_of_string nokey_json)
   \<and> decodeAndParse (mock_env forbidden_response) nokey_key =
       Ok \<lparr>APIEndpoint = ''https://mock'', APIKey = []\<rparr>
   \<and> main (mock_env forbidden_response) nokey_key = ([], LogFatal APIKeyEmpty)"
proof -
  let ?E = "mock_env forbidden_response"
  let ?d = "\<lparr>APIEndpoint = ''https://mock'', APIKey = []\<rparr>"
  have h1: "nokey_key \<noteq> []" by (rule mock_key_nonempty)
  have h2: "decode ?E nokey_key = Ok (bytes_of_string nokey_json)" by (rule mock_decode)
  have h3: "json_Unmarshal_DecodedData ?E (bytes_of_string nokey_json) = Inr ?d"
    by (simp add: mock_env_simps mock_Unmarshal_DecodedData_def mock_documents)
  have h4: "GenerateX25519KeyPair ?E =
      Inr (''AAECAwQFBgcICQoLDA0ODxAREhMUFRYXGBkaGxwdHl8='',
           ''j0DFrbaPJWJK5bIU6nZ6bslNgp09e14a0bpvPiE4KF8='')"
    by (rule mock_keypair)
  have h5: "uuid_New ?E = Inr ''6ba7b810-9dad-41d1-80b4-00c04fd430c8''"
    by (simp add: mock_env_simps)
  from parse_returns_the_unmarshalled_record
    [OF h1 h2, where url = "''https://mock''" and apiKey = "[]"
      and body = "\<lparr>PublicKey = [], OSVersion = ''macOS'', AppVersion = ''4.8.2.3'', UUID = []\<rparr>"]
  have "decodeAndParse ?E nokey_key = Ok ?d"
    and "main ?E nokey_key = ([], LogFatal (if APIEndpoint ?d = [] then URLEmpty else APIKeyEmpty))"
    using h3 h4 h5 by auto
  then show ?thesis
    using h1 h2 by simp
qed

text \<open>
  The claim as the specification words it fails at a link whose document has no
  \<^verbatim>\<open>api_key\<close>: parsing succeeds and returns an empty credential.
\<close>

theorem parse_missing_credential_counterexample:
  "decode (mock_env forbidden_response) nokey_key = Ok (bytes_of_string nokey_json)
   \<and> decodeAndParse (mock_env forbidden_response) nokey_key =
       Ok \<lparr>APIEndpoint = ''https://mock'', APIKey = []\<rparr>"
  by (simp add: mock_decode mock_decodeAndParse_nokey)

section \<open>The key pair\<close>

text \<open>
  C8. Whatever 32 bytes the random source gives, the private key is those bytes with
  the low three bits of byte 0 cleared, the high bit of byte 31 cleared and the next bit
  of byte 31 set (and nothing else changed), and the public key is what
  \<^verbatim>\<open>curve25519.X25519\<close> returns for that clamped scalar and the base point. Both are
  returned in standard base64, the private key first.
\<close>

theorem keypair_clamped_and_derived:
  assumes "rand_err E = None"
    and "seed = map (rand_bytes E) [0..<ScalarSize]"
    and "X25519 E (clamp seed) Basepoint = Inr publicKey"
  shows "GenerateX25519KeyPair E =
           Inr (EncodeToString encodeStd (clamp seed), EncodeToString encodeStd publicKey)
         \<and> length seed = 32 \<and> length (clamp seed) = 32
         \<and> clamp seed ! 0 AND 7 = 0
         \<and> clamp seed ! 31 AND 128 = 0
         \<and> clamp seed ! 31 AND 64 = 64
         \<and> clamp seed ! 0 AND 248 = seed ! 0 AND 248
         \<and> clamp seed ! 31 AND 63 = seed ! 31 AND 63
         \<and> (\<forall>i. 0 < i \<and> i < 31 \<longrightarrow> clamp seed ! i = seed ! i)"
proof -
  have len: "length seed = 32"
    using assms(2) by (simp add: ScalarSize_def)
  have "GenerateX25519KeyPair E =
      Inr (EncodeToString encodeStd (clamp seed), EncodeToString encodeStd publicKey)"
    using assms by (simp add: GenerateX25519KeyPair_def)
  then show ?thesis
    using len by (simp add: clamp_nth [OF len] clamp_bits)
qed

theorem keypair_clamped_and_derived_witness:
  "rand_err (mock_env forbidden_response) = None
   \<and> X25519 (mock_env forbidden_response) mock_scalar Basepoint = Inr mock_public
   \<and> GenerateX25519KeyPair (mock_env forbidden_response) =
       Inr (''AAECAwQFBgcICQoLDA0ODxAREhMUFRYXGBkaGxwdHl8='',
            ''j0DFrbaPJWJK5bIU6nZ6bslNgp09e14a0bpvPiE4KF8='')
   \<and> mock_scalar ! 0 AND 7 = 0 \<and> mock_scalar ! 31 AND 128 = 0 \<and> mock_scalar ! 31 AND 64 = 64"
proof -
  let ?E = "mock_env forbidden_response"
  have h1: "rand_err ?E = None"
    by (simp add: mock_env_simps)
  have h2: "mock_scalar = clamp (map (rand_bytes ?E) [0..<ScalarSize])"
    by (simp add: mock_env_simps mock_seed)
  have h3: "X25519 ?E (clamp (map (rand_bytes ?E) [0..<ScalarSize])) Basepoint = Inr mock_public"
    by (simp add: mock_env_simps mock_seed mock_X25519_def)
  show ?thesis
    using h1 h3 keypair_clamped_and_derived [OF h1 refl h3]
    by (simp add: h2 [symmetric] mock_keys_base64)
qed

section \<open>The exchange with the server\<close>

text \<open>
  C9. Let the request be built and answered. When the status of the answer is below 200
  or at least 300, \<open>sendPostRequest\<close> returns the error "unexpected HTTP status code"
  with that status and the text of the body as read, and \<open>main\<close> ends there by
  \<^verbatim>\<open>log.Fatalf\<close> with nothing written to the standard output: the response is not
  decoded and nothing is assembled. When the status is in [200, 300), \<open>sendPostRequest\<close>
  returns no such error.
\<close>

theorem server_rejection_ends_the_run:
  assumes "key \<noteq> []"
    and "decodeAndParse E key = Ok decoded"
    and "APIEndpoint decoded \<noteq> []" and "APIKey decoded \<noteq> []"
    and "GenerateX25519KeyPair E = Inr (pubKey, privateKey)"
    and "uuid_New E = Inr uuid"
    and "body = \<lparr>PublicKey = pubKey, OSVersion = ''macOS'', AppVersion = ''4.8.2.3'', UUID = uuid\<rparr>"
    and "json_Marshal E body = Inr jsonBody"
    and "http_NewRequest_err E ''POST'' (APIEndpoint decoded) = None"
    and "client_Do E
           \<lparr>Method = ''POST'', URL = APIEndpoint decoded,
            Header = [''Content-Type'' \<mapsto> [''application/json''],
                      ''Authorization'' \<mapsto> [''Api-Key '' @ APIKey decoded]],
            Payload = jsonBody\<rparr> = Inr resp"
  shows "(StatusCode resp < 200 \<or> 300 \<le> StatusCode resp \<longrightarrow>
            sendPostRequest E (APIEndpoint decoded) body (APIKey decoded) =
              Inl (UnexpectedHTTPStatusCode (StatusCode resp) (string_of_bytes (fst (Body resp))))
            \<and> main E key =
              ([], LogFatal (UnexpectedHTTPStatusCode (StatusCode resp)
                              (string_of_bytes (fst (Body resp))))))
         \<and> (200 \<le> StatusCode resp \<and> StatusCode resp < 300 \<longrightarrow>
              (\<forall>status msg. sendPostRequest E (APIEndpoint decoded) body (APIKey decoded) \<noteq>
                 Inl (UnexpectedHTTPStatusCode status msg)))"
proof -
  let ?send = "sendPostRequest E (APIEndpoint decoded) body (APIKey decoded)"
  have send: "?send =
      (if StatusCode resp < 200 \<or> StatusCode resp \<ge> 300
       then Inl (UnexpectedHTTPStatusCode (StatusCode resp) (string_of_bytes (fst (Body resp))))
       else (case snd (Body resp) of
               Some e \<Rightarrow> Inl (ReadResponseBody e)
             | None \<Rightarrow>
                 (case json_Unmarshal_ResponseBody E (fst (Body resp)) of
                    Inl e \<Rightarrow> Inl (ParseResponseJSON e)
                  | Inr response \<Rightarrow> Inr response)))"
    using assms(3,4,8,9,10) by (simp add: sendPostRequest_def HeaderSet_def)
  have run: "main E key = (case ?send of
      Inl e \<Rightarrow> ([], LogFatal e) | Inr responseBody \<Rightarrow> assemble E privateKey responseBody)"
    using assms(1,2,5,6,7) by (simp add: main_def)
  have rejected: "?send = Inl (UnexpectedHTTPStatusCode (StatusCode resp) (string_of_bytes (fst (Body resp))))
      \<and> main E key = ([], LogFatal (UnexpectedHTTPStatusCode (StatusCode resp) (string_of_bytes (fst (Body resp)))))"
    if "StatusCode resp < 200 \<or> 300 \<le> StatusCode resp"
    using that by (simp add: run send)
  have accepted: "?send \<noteq> Inl (UnexpectedHTTPStatusCode status msg)"
    if "200 \<le> StatusCode resp \<and> StatusCode resp < 300" for status msg
    using that by (simp add: send split: option.split sum.split)
  from rejected accepted show ?thesis by blast
qed

theorem server_rejection_ends_the_run_witness:
  "StatusCode forbidden_response = 403
   \<and> main (mock_env forbidden_response) params_key =
       ([], LogFatal (UnexpectedHTTPStatusCode 403 ''forbidden''))
   \<and> StatusCode (ok_response good_link) = 200
   \<and> sendPostRequest (mock_env (ok_response good_link)) ''https://mock''
         \<lparr>PublicKey = ''AAECAwQFBgcICQoLDA0ODxAREhMUFRYXGBkaGxwdHl8='', OSVersion = ''macOS'',
          AppVersion = ''4.8.2.3'', UUID = ''6ba7b810-9dad-41d1-80b4-00c04fd430c8''\<rparr> ''K'' \<noteq>
       Inl (UnexpectedHTTPStatusCode 200 [])"
proof -
  let ?body = "\<lparr>PublicKey = ''AAECAwQFBgcICQoLDA0ODxAREhMUFRYXGBkaGxwdHl8='', OSVersion = ''macOS'',
      AppVersion = ''4.8.2.3'', UUID = ''6ba7b810-9dad-41d1-80b4-00c04fd430c8''\<rparr>"
  let ?decoded = "\<lparr>APIEndpoint = ''https://mock'', APIKey = ''K''\<rparr>"
  have marshal: "json_Marshal (mock_env r) ?body = mock_Marshal ?body" for r
    by (simp add: mock_env_simps)
  have request: "client_Do (mock_env r)
      \<lparr>Method = ''POST'', URL = APIEndpoint ?decoded,
       Header = [''Content-Type'' \<mapsto> [''application/json''],
                 ''Authorization'' \<mapsto> [''Api-Key '' @ APIKey ?decoded]],
       Payload = p\<rparr> = Inr r" for r p
    by (simp add: mock_env_simps mock_server_def)
  have at_response: "(StatusCode r < 200 \<or> 300 \<le> StatusCode r \<longrightarrow>
      sendPostRequest (mock_env r) (APIEndpoint ?decoded) ?body (APIKey ?decoded) =
        Inl (UnexpectedHTTPStatusCode (StatusCode r) (string_of_bytes (fst (Body r))))
      \<and> main (mock_env r) params_key =
        ([], LogFatal (UnexpectedHTTPStatusCode (StatusCode r) (string_of_bytes (fst (Body r))))))
    \<and> (200 \<le> StatusCode r \<and> StatusCode r < 300 \<longrightarrow>
        (\<forall>status msg. sendPostRequest (mock_env r) (APIEndpoint ?decoded) ?body (APIKey ?decoded) \<noteq>
           Inl (UnexpectedHTTPStatusCode status msg)))" for r
  proof (rule server_rejection_ends_the_run [where uuid = "''6ba7b810-9dad-41d1-80b4-00c04fd430c8''"])
    show "params_key \<noteq> []" by (rule mock_key_nonempty)
    show "decodeAndParse (mock_env r) params_key = Ok ?decoded" by (rule mock_decodeAndParse_params)
    show "APIEndpoint ?decoded \<noteq> []" "APIKey ?decoded \<noteq> []" by simp_all
    show "GenerateX25519KeyPair (mock_env r) =
        Inr (''AAECAwQFBgcICQoLDA0ODxAREhMUFRYXGBkaGxwdHl8='',
             ''j0DFrbaPJWJK5bIU6nZ6bslNgp09e14a0bpvPiE4KF8='')"
      by (rule mock_keypair)
    show "uuid_New (mock_env r) = Inr ''6ba7b810-9dad-41d1-80b4-00c04fd430c8''"
      by (simp add: mock_env_simps)
    show "?body = ?body" by (rule refl)
    show "json_Marshal (mock_env r) ?body = Inr (case mock_Marshal ?body of Inr b \<Rightarrow> b | Inl e \<Rightarrow> [])"
      by (simp add: marshal mock_Marshal_def)
    show "http_NewRequest_err (mock_env r) ''POST'' (APIEndpoint ?decoded) = None"
      by (simp add: mock_env_simps)
    show "client_Do (mock_env r)
        \<lparr>Method = ''POST'', URL = APIEndpoint ?decoded,
         Header = [''Content-Type'' \<mapsto> [''application/json''],
                   ''Authorization'' \<mapsto> [''Api-Key '' @ APIKey ?decoded]],
         Payload = (case mock_Marshal ?body of Inr b \<Rightarrow> b | Inl e \<Rightarrow> [])\<rparr> = Inr r"
      by (rule request)
  qed
  from at_response [of forbidden_response] at_response [of "ok_response good_link"]
  show ?thesis
    by (simp add: forbidden_response_def ok_response_def string_of_bytes_of_string)
qed

text \<open>
  C2. The \<^verbatim>\<open>public_key\<close> field of the request body is the first result of
  \<open>GenerateX25519KeyPair\<close>, the base64 text of the clamped private scalar; the base64
  text of the public key goes to the assembly instead. The labels are "macOS" and
  "4.8.2.3", and the identifier is the fresh UUID.
\<close>

theorem request_carries_first_result:
  assumes "key \<noteq> []"
    and "decodeAndParse E key = Ok decoded"
    and "rand_err E = None"
    and "seed = map (rand_bytes E) [0..<ScalarSize]"
    and "X25519 E (clamp seed) Basepoint = Inr publicKey"
    and "uuid_New E = Inr uuid"
  shows "main E key =
           (case sendPostRequest E (APIEndpoint decoded)
                   \<lparr>PublicKey = EncodeToString encodeStd (clamp seed), OSVersion = ''macOS'',
                    AppVersion = ''4.8.2.3'', UUID = uuid\<rparr> (APIKey decoded) of
              Inl e \<Rightarrow> ([], LogFatal e)
            | Inr responseBody \<Rightarrow> assemble E (EncodeToString encodeStd publicKey) responseBody)"
  using assms by (simp add: main_def GenerateX25519KeyPair_def)

theorem request_carries_first_result_witness:
  "clamp (map (rand_bytes (mock_env forbidden_response)) [0..<ScalarSize]) = mock_scalar
   \<and> X25519 (mock_env forbidden_response) mock_scalar Basepoint = Inr mock_public
   \<and> EncodeToString encodeStd mock_scalar = ''AAECAwQFBgcICQoLDA0ODxAREhMUFRYXGBkaGxwdHl8=''
   \<and> json_Marshal (mock_env forbidden_response)
         \<lparr>PublicKey = EncodeToString encodeStd mock_scalar, OSVersion = ''macOS'',
          AppVersion = ''4.8.2.3'', UUID = ''6ba7b810-9dad-41d1-80b4-00c04fd430c8''\<rparr> =
       Inr (bytes_of_string
         ''{\"public_key\":\"AAECAwQFBgcICQoLDA0ODxAREhMUFRYXGBkaGxwdHl8=\",\"os_version\":\"macOS\",\"app_version\":\"4.8.2.3\",\"uuid\":\"6ba7b810-9dad-41d1-80b4-00c04fd430c8\"}'')
   \<and> main (mock_env forbidden_response) params_key =
       (case sendPostRequest (mock_env forbidden_response) ''https://mock''
               \<lparr>PublicKey = EncodeToString encodeStd mock_scalar, OSVersion = ''macOS'',
                AppVersion = ''4.8.2.3'', UUID = ''6ba7b810-9dad-41d1-80b4-00c04fd430c8''\<rparr> ''K'' of
          Inl e \<Rightarrow> ([], LogFatal e)
        | Inr responseBody \<Rightarrow>
            assemble (mock_env forbidden_response) (EncodeToString encodeStd mock_public) responseBody)"
proof -
  let ?E = "mock_env forbidden_response"
  let ?decoded = "\<lparr>APIEndpoint = ''https://mock'', APIKey = ''K''\<rparr>"
  have h1: "params_key \<noteq> []" by (rule mock_key_nonempty)
  have h2: "decodeAndParse ?E params_key = Ok ?decoded" by (rule mock_decodeAndParse_params)
  have h3: "rand_err ?E = None" by (simp add: mock_env_simps)
  have seed: "clamp (map (rand_bytes ?E) [0..<ScalarSize]) = mock_scalar"
    by (simp add: mock_env_simps mock_seed)
  have h5: "X25519 ?E (clamp (map (rand_bytes ?E) [0..<ScalarSize])) Basepoint = Inr mock_public"
    by (simp add: mock_env_simps mock_seed mock_X25519_def)
  have h6: "uuid_New ?E = Inr ''6ba7b810-9dad-41d1-80b4-00c04fd430c8''"
    by (simp add: mock_env_simps)
  have marshal: "json_Marshal ?E
      \<lparr>PublicKey = EncodeToString encodeStd mock_scalar, OSVersion = ''macOS'',
       AppVersion = ''4.8.2.3'', UUID = ''6ba7b810-9dad-41d1-80b4-00c04fd430c8''\<rparr> =
      Inr (bytes_of_string
        ''{\"public_key\":\"AAECAwQFBgcICQoLDA0ODxAREhMUFRYXGBkaGxwdHl8=\",\"os_version\":\"macOS\",\"app_version\":\"4.8.2.3\",\"uuid\":\"6ba7b810-9dad-41d1-80b4-00c04fd430c8\"}'')"
    by (simp add: mock_env_simps mock_Marshal_def mock_keys_base64)
  show ?thesis
    using seed h5 marshal request_carries_first_result [OF h1 h2 h3 refl h5 h6]
    by (simp add: mock_keys_base64)
qed

section \<open>The assembly of the configuration\<close>

text \<open>
  C4. When the decoded response unmarshals to a document with no container (the list is
  missing, \<^verbatim>\<open>null\<close> or empty), the index expression \<^verbatim>\<open>config.Containers[0]\<close> panics
  with "index out of range [0] with length 0": the run is unwound, no error is
  reported.
\<close>

theorem no_container_panics:
  assumes "decode E (Config responseBody) = Ok decodedConfig"
    and "json_Unmarshal_Config E decodedConfig = Inr config"
    and "Containers config = []"
  shows "assemble E privateKey responseBody = ([], Panicked (IndexOutOfRange 0 0))"
  using assms by (simp add: assemble_def)

theorem no_container_panics_witness:
  "decode (mock_env (ok_response nocontainers_link)) nocontainers_link =
     Ok (bytes_of_string nocontainers_json)
   \<and> json_Unmarshal_Config (mock_env (ok_response nocontainers_link))
       (bytes_of_string nocontainers_json) = Inr \<lparr>Containers = []\<rparr>
   \<and> main (mock_env (ok_response nocontainers_link)) params_key =
       ([], Panicked (IndexOutOfRange 0 0))"
proof -
  let ?E = "mock_env (ok_response nocontainers_link)"
  have h1: "decode ?E (Config \<lparr>Config = nocontainers_link\<rparr>) = Ok (bytes_of_string nocontainers_json)"
    by (simp add: mock_decode)
  have h2: "json_Unmarshal_Config ?E (bytes_of_string nocontainers_json) = Inr \<lparr>Containers = []\<rparr>"
    by (simp add: mock_env_simps mock_Unmarshal_Config_def mock_documents)
  have h3: "Containers \<lparr>Containers = []\<rparr> = []"
    by simp
  show ?thesis
    using h1 h2 no_container_panics [OF h1 h2 h3]
    by (simp add: mock_main mock_exchange_other)
qed

text \<open>
  C6. When the nested document unmarshals to a map in which \<^verbatim>\<open>config\<close> is missing or
  is not a string, the type assertion \<^verbatim>\<open>lastConfig["config"].(string)\<close> panics
  ("interface conversion"), after the line with the key has been printed: the run is
  unwound, no error is reported.
\<close>

theorem missing_config_field_panics:
  assumes "decode E (Config responseBody) = Ok decodedConfig"
    and "json_Unmarshal_Config E decodedConfig = Inr config"
    and "Containers config = container # others"
    and "json_Unmarshal_map E (bytes_of_string (LastConfig (AWG container))) = Inr lastConfig"
    and "\<forall>template. lastConfig ''config'' \<noteq> Some (JString template)"
  shows "assemble E privateKey responseBody =
           ([newline @ ''Private key: '' @ privateKey @ newline],
            Panicked (InterfaceConversion (lastConfig ''config'')))"
  using assms by (auto simp: assemble_def Let_def split: option.split json_value.split)

theorem missing_config_field_panics_witness:
  "json_Unmarshal_map (mock_env (ok_response notemplate_link)) (bytes_of_string ''{}'') =
     Inr Map.empty
   \<and> main (mock_env (ok_response notemplate_link)) params_key =
       ([newline @ ''Private key: j0DFrbaPJWJK5bIU6nZ6bslNgp09e14a0bpvPiE4KF8='' @ newline],
        Panicked (InterfaceConversion None))"
proof -
  let ?E = "mock_env (ok_response notemplate_link)"
  let ?container = "\<lparr>AWG = \<lparr>LastConfig = ''{}''\<rparr>\<rparr>"
  have h1: "decode ?E (Config \<lparr>Config = notemplate_link\<rparr>) = Ok (bytes_of_string notemplate_json)"
    by (simp add: mock_decode)
  have h2: "json_Unmarshal_Config ?E (bytes_of_string notemplate_json) =
      Inr \<lparr>Containers = [?container]\<rparr>"
    by (simp add: mock_env_simps mock_Unmarshal_Config_def mock_documents)
  have h3: "Containers \<lparr>Containers = [?container]\<rparr> = ?container # []"
    by simp
  have h4: "json_Unmarshal_map ?E (bytes_of_string (LastConfig (AWG ?container))) = Inr Map.empty"
    by (simp add: mock_env_simps mock_Unmarshal_map_def mock_documents)
  have h5: "\<forall>template. (Map.empty :: string \<rightharpoonup> json_value) ''config'' \<noteq> Some (JString template)"
    by simp
  show ?thesis
    using h4 missing_config_field_panics [OF h1 h2 h3 h4 h5]
    by (simp add: mock_main mock_exchange_other)
qed

text \<open>
  C1. In a run that comes to the end, the text put in place of every
  \<^verbatim>\<open>$WIREGUARD_CLIENT_PRIVATE_KEY\<close> of the template, and printed as "Private key", is
  the second result of \<open>GenerateX25519KeyPair\<close>: \<open>main\<close> binds the results as
  \<^verbatim>\<open>pubKey, privateKey\<close>, while the function returns the private key first. The
  configuration is filled with the base64 text of the public key.
\<close>

theorem template_filled_with_second_result:
  assumes "key \<noteq> []"
    and "decodeAndParse E key = Ok decoded"
    and "GenerateX25519KeyPair E = Inr (privateKeyBase64, publicKeyBase64)"
    and "uuid_New E = Inr uuid"
    and "sendPostRequest E (APIEndpoint decoded)
           \<lparr>PublicKey = privateKeyBase64, OSVersion = ''macOS'', AppVersion = ''4.8.2.3'',
            UUID = uuid\<rparr> (APIKey decoded) = Inr responseBody"
    and "decode E (Config responseBody) = Ok decodedConfig"
    and "json_Unmarshal_Config E decodedConfig = Inr config"
    and "Containers config = container # others"
    and "json_Unmarshal_map E (bytes_of_string (LastConfig (AWG container))) = Inr lastConfig"
    and "lastConfig ''config'' = Some (JString template)"
  shows "main E key =
           ([newline @ ''Private key: '' @ publicKeyBase64 @ newline,
             newline @ ''Response: '' @ newline @
               strings_Replace template ''$WIREGUARD_CLIENT_PRIVATE_KEY'' publicKeyBase64 @ newline],
            Returned)"
proof -
  have "assemble E publicKeyBase64 responseBody =
      ([newline @ ''Private key: '' @ publicKeyBase64 @ newline,
        newline @ ''Response: '' @ newline @
          strings_Replace template ''$WIREGUARD_CLIENT_PRIVATE_KEY'' publicKeyBase64 @ newline],
       Returned)"
    using assms(6-10) by (simp add: assemble_def)
  then show ?thesis
    using assms(1-5) by (simp add: main_def)
qed

theorem template_filled_with_second_result_witness:
  "GenerateX25519KeyPair (mock_env (ok_response good_link)) =
     Inr (EncodeToString encodeStd mock_scalar, EncodeToString encodeStd mock_public)
   \<and> EncodeToString encodeStd mock_public = ''j0DFrbaPJWJK5bIU6nZ6bslNgp09e14a0bpvPiE4KF8=''
   \<and> main (mock_env (ok_response good_link)) params_key =
       ([newline @ ''Private key: j0DFrbaPJWJK5bIU6nZ6bslNgp09e14a0bpvPiE4KF8='' @ newline,
         newline @ ''Response: '' @ newline @
           ''PrivateKey = j0DFrbaPJWJK5bIU6nZ6bslNgp09e14a0bpvPiE4KF8='' @ newline],
        Returned)"
proof -
  let ?E = "mock_env (ok_response good_link)"
  let ?decoded = "\<lparr>APIEndpoint = ''https://mock'', APIKey = ''K''\<rparr>"
  let ?container = "\<lparr>AWG = \<lparr>LastConfig = nested_json\<rparr>\<rparr>"
  have h1: "params_key \<noteq> []" by (rule mock_key_nonempty)
  have h2: "decodeAndParse ?E params_key = Ok ?decoded" by (rule mock_decodeAndParse_params)
  have h3: "GenerateX25519KeyPair ?E =
      Inr (''AAECAwQFBgcICQoLDA0ODxAREhMUFRYXGBkaGxwdHl8='',
           ''j0DFrbaPJWJK5bIU6nZ6bslNgp09e14a0bpvPiE4KF8='')"
    by (rule mock_keypair)
  have h4: "uuid_New ?E = Inr ''6ba7b810-9dad-41d1-80b4-00c04fd430c8''"
    by (simp add: mock_env_simps)
  have h5: "sendPostRequest ?E (APIEndpoint ?decoded)
      \<lparr>PublicKey = ''AAECAwQFBgcICQoLDA0ODxAREhMUFRYXGBkaGxwdHl8='', OSVersion = ''macOS'',
       AppVersion = ''4.8.2.3'', UUID = ''6ba7b810-9dad-41d1-80b4-00c04fd430c8''\<rparr>
      (APIKey ?decoded) = Inr \<lparr>Config = good_link\<rparr>"
    by (simp add: mock_exchange)
  have h6: "decode ?E (Config \<lparr>Config = good_link\<rparr>) = Ok (bytes_of_string good_json)"
    by (simp add: mock_decode)
  have h7: "json_Unmarshal_Config ?E (bytes_of_string good_json) = Inr \<lparr>Containers = [?container]\<rparr>"
    by (simp add: mock_env_simps mock_Unmarshal_Config_def)
  have h8: "Containers \<lparr>Containers = [?container]\<rparr> = ?container # []"
    by simp
  have h9: "json_Unmarshal_map ?E (bytes_of_string (LastConfig (AWG ?container))) =
      Inr [''config'' \<mapsto> JString template_text]"
    by (simp add: mock_env_simps mock_Unmarshal_map_def)
  have h10: "[''config'' \<mapsto> JString template_text] ''config'' = Some (JString template_text)"
    by simp
  show ?thesis
    using h3 template_filled_with_second_result [OF h1 h2 h3 h4 h5 h6 h7 h8 h9 h10]
    by (simp add: mock_template_filled mock_keys_base64)
qed

end
